theory Spec2Isabelle
  imports Main "HOL-Library.AList" "HOL-Library.Sublist" "HOL-Library.Multiset"
begin

section \<open>Python values\<close>

text \<open>
  A Python \<open>str\<close> is modelled as a \<open>string\<close>: each \<open>char\<close> stands for one code point
  below 256.  A Python \<open>dict\<close> is an association list with distinct keys that keeps the
  insertion order; \<open>d[k] = v\<close> is \<open>AList.update k v d\<close> (replace in place, or append).
\<close>

type_synonym 'v dict = "(string \<times> 'v) list"

definition dict_set :: "string \<Rightarrow> 'v \<Rightarrow> 'v dict \<Rightarrow> 'v dict" where
  "dict_set k v d = AList.update k v d"

text \<open>\<open>all(d.values())\<close>\<close>

definition all_values :: "bool dict \<Rightarrow> bool" where
  "all_values d = list_all snd d"

section \<open>Downloader: configuration and object state\<close>

text \<open>
  The JSON configuration, with the keys the two scripts read by subscript:
  \<open>download_settings.{output_dir, cookie_file, timeout, max_retries}\<close> and
  \<open>download_options.{body_model, gender, datasets}\<close>.  \<open>max_workers\<close> is read with
  \<open>.get("max_workers", 4)\<close>, so the key may be absent.
\<close>

record config =
  output_dir :: string
  cookie_file :: string
  timeout :: int
  max_retries :: int
  max_workers :: "int option"
  body_model :: string
  gender :: string
  datasets :: "string list"

text \<open>The fields of an \<open>AMassDownloader\<close> object that the methods read.\<close>

record downloader =
  config :: config
  cookies :: "string dict"

definition DOWNLOAD_URL :: string where
  "DOWNLOAD_URL = ''https://download.is.tue.mpg.de/download.php''"

section \<open>Building the download URL\<close>

definition get_download_url ::
  "downloader \<Rightarrow> string \<Rightarrow> string \<Rightarrow> string \<Rightarrow> string \<times> string" where
  "get_download_url self dataset bmodel gndr =
     (let model_dir =
            (if bmodel = ''SMPL-H'' then ''smplh''
             else if bmodel = ''SMPL-X'' then ''smplx''
             else ''smplh'');
          gender_dir =
            (if gndr \<in> set [''male'', ''female''] then ''gender_specific''
             else ''neutral'');
          sfile = ''amass_per_dataset/'' @ model_dir @ ''/'' @ gender_dir
                    @ ''/mosh_results/'' @ dataset @ ''.tar.bz2'';
          url = DOWNLOAD_URL @ ''?domain=amass&resume=1&sfile='' @ sfile;
          filename = dataset @ ''_'' @ model_dir @ ''_'' @ gndr @ ''.tar.bz2''
      in (url, filename))"

text \<open>The claim's own words for the two directories, to compare with the code.\<close>

definition spec_model_dir :: "string \<Rightarrow> string" where
  "spec_model_dir bmodel =
     (if bmodel = ''SMPL-H'' then ''smplh''
      else if bmodel = ''SMPL-X'' then ''smplx'' else ''smplh'')"

definition spec_gender_dir :: "string \<Rightarrow> string" where
  "spec_gender_dir gndr =
     (if gndr = ''male'' \<or> gndr = ''female'' then ''gender_specific'' else ''neutral'')"

section \<open>Downloader: the world outside the program\<close>

text \<open>
  What \<open>session.get\<close> and the handling of a 200 response do is decided outside the
  program.  A \<open>reply\<close> is the outcome of one pass through the \<open>try\<close> block of
  \<open>download_file\<close>: \<open>session.get\<close> raises, or it returns a response with a status
  code.  For a 200 response the \<open>body\<close> says how saving went: everything written
  (\<open>Saved\<close>), an exception before the output file was opened (reading the
  content-length header, \<open>os.makedirs\<close>, \<open>open\<close>: \<open>PrepareRaised\<close>), or an exception
  once the output file was open (\<open>iter_content\<close>, \<open>f.write\<close>: \<open>StreamRaised\<close>).
\<close>

datatype body = Saved | PrepareRaised | StreamRaised

datatype reply = Raised | Status int body

text \<open>
  A text file as the program reads it: \<open>Lines ls\<close> yields the lines \<open>ls\<close>;
  \<open>Unreadable ls\<close> exists but raises after yielding \<open>ls\<close> (\<open>open\<close> itself raising is
  \<open>Unreadable []\<close>); \<open>Blob\<close> is a downloaded archive.
\<close>

datatype pyfile = Lines "string list" | Unreadable "string list" | Blob

datatype event =
    HttpGet string "string dict"
  | FileWrite string
  | Sleep int
  | PoolCreate int
  | Submit string

text \<open>The result of a call handed to the pool: \<open>future.result()\<close> returns or raises.\<close>

datatype 'a future = Result 'a | Exc

text \<open>
  \<open>fs\<close> maps a path to the file there (\<open>None\<close>: \<open>os.path.exists\<close> is false);
  \<open>replies n\<close> is the outcome of the \<open>n\<close>-th GET of the run and \<open>sent\<close> counts the
  GETs made so far; \<open>json_load\<close> is \<open>json.load\<close> (\<open>None\<close>: \<open>JSONDecodeError\<close>);
  \<open>futures i\<close> is what the \<open>i\<close>-th submitted call returns when it runs on the pool, and
  \<open>pick\<close> decides which pending future completes next; \<open>trace\<close> records the requests,
  file writes and sleeps in the order the program performs them.
\<close>

record world =
  fs :: "string \<Rightarrow> pyfile option"
  replies :: "nat \<Rightarrow> reply"
  sent :: nat
  json_load :: "string list \<Rightarrow> config option"
  futures :: "nat \<Rightarrow> bool future"
  pick :: "nat \<Rightarrow> nat"
  trace :: "event list"

definition emit :: "event \<Rightarrow> world \<Rightarrow> world" where
  "emit e w = w\<lparr>trace := trace w @ [e]\<rparr>"

definition time_sleep :: "int \<Rightarrow> world \<Rightarrow> world" where
  "time_sleep secs w = emit (Sleep secs) w"

definition os_path_exists :: "world \<Rightarrow> string \<Rightarrow> bool" where
  "os_path_exists w p = (fs w p \<noteq> None)"

text \<open>\<open>os.path.join\<close> of two components (POSIX).\<close>

definition os_path_join :: "string \<Rightarrow> string \<Rightarrow> string" where
  "os_path_join a b =
     (if b \<noteq> [] \<and> hd b = CHR ''/'' then b
      else if a = [] \<or> last a = CHR ''/'' then a @ b
      else a @ ''/'' @ b)"

text \<open>How a call ends: it returns, calls \<open>sys.exit(n)\<close>, or lets an exception
  escape.  At the top level an escaped exception ends the interpreter with status 1.\<close>

datatype 'a outcome = Returns 'a | SysExit int | Raises

fun exit_code :: "'a outcome \<Rightarrow> int" where
  "exit_code (Returns _) = 0"
| "exit_code (SysExit n) = n"
| "exit_code Raises = 1"

section \<open>Downloader: cookies\<close>

text \<open>\<open>str.isspace\<close> on the code points below 256.\<close>

definition isspace :: "char \<Rightarrow> bool" where
  "isspace c =
     (let n = (of_char c :: nat)
      in (9 \<le> n \<and> n \<le> 13) \<or> (28 \<le> n \<and> n \<le> 32) \<or> n = 133 \<or> n = 160)"

definition lstrip :: "string \<Rightarrow> string" where
  "lstrip s = dropWhile isspace s"

definition rstrip :: "string \<Rightarrow> string" where
  "rstrip s = rev (dropWhile isspace (rev s))"

definition strip :: "string \<Rightarrow> string" where
  "strip s = rstrip (lstrip s)"

text \<open>\<open>s.split(sep)\<close> for a one-character separator: never the empty list.\<close>

fun split :: "char \<Rightarrow> string \<Rightarrow> string list" where
  "split sep [] = [[]]"
| "split sep (c # cs) =
     (if c = sep then [] # split sep cs
      else (case split sep cs of
              [] \<Rightarrow> [[c]]
            | part # parts \<Rightarrow> (c # part) # parts))"

text \<open>\<open>s.split(sep, 1)\<close> when \<open>sep\<close> occurs in \<open>s\<close>: the parts before and after the first
  occurrence.\<close>

definition split1 :: "char \<Rightarrow> string \<Rightarrow> string \<times> string" where
  "split1 sep s = (takeWhile (\<lambda>c. c \<noteq> sep) s, tl (dropWhile (\<lambda>c. c \<noteq> sep) s))"

definition TAB :: char where
  "TAB = CHR 0x09"

text \<open>The body of the \<open>for line in f\<close> loop of \<open>load_cookies_from_file\<close>.\<close>

definition load_line :: "string \<Rightarrow> string dict \<Rightarrow> string dict" where
  "load_line raw cs =
     (let line = strip raw in
      if line = [] \<or> hd line = CHR ''#'' then cs
      else
        let parts = split TAB line in
        if length parts \<ge> 7 then dict_set (parts ! 5) (parts ! 6) cs
        else if CHR ''='' \<in> set line then
          (let (name, val) = split1 CHR ''='' line
           in dict_set (strip name) (strip val) cs)
        else cs)"

fun load_lines :: "string list \<Rightarrow> string dict \<Rightarrow> string dict" where
  "load_lines [] cs = cs"
| "load_lines (raw # rest) cs = load_lines rest (load_line raw cs)"

definition load_cookies_from_file :: "world \<Rightarrow> string \<Rightarrow> string dict" where
  "load_cookies_from_file w path =
     (if \<not> os_path_exists w path then []
      else
        (case fs w path of
           Some (Lines ls) \<Rightarrow> load_lines ls []
         | _ \<Rightarrow> []))"

definition load_config :: "world \<Rightarrow> string \<Rightarrow> config outcome" where
  "load_config w path =
     (case fs w path of
        None \<Rightarrow> SysExit 1
      | Some (Lines ls) \<Rightarrow>
          (case json_load w ls of None \<Rightarrow> SysExit 1 | Some c \<Rightarrow> Returns c)
      | Some _ \<Rightarrow> Raises)"

definition setup_session :: "downloader \<Rightarrow> world \<Rightarrow> downloader" where
  "setup_session self w =
     self\<lparr>cookies := load_cookies_from_file w (cookie_file (config self))\<rparr>"

section \<open>Downloader: one file\<close>

definition session_get :: "downloader \<Rightarrow> string \<Rightarrow> world \<Rightarrow> reply \<times> world" where
  "session_get self url w =
     (replies w (sent w), emit (HttpGet url (cookies self)) (w\<lparr>sent := sent w + 1\<rparr>))"

text \<open>The 200 branch: \<open>True\<close> when the \<open>return True\<close> is reached, \<open>False\<close> when an
  exception sent control to the \<open>except\<close> clause.  Once the output file has been opened
  for writing it exists, also when streaming the body fails later.\<close>

definition save_body :: "string \<Rightarrow> body \<Rightarrow> world \<Rightarrow> bool \<times> world" where
  "save_body output_path b w =
     (case b of
        Saved \<Rightarrow> (True, emit (FileWrite output_path) (w\<lparr>fs := (fs w)(output_path \<mapsto> Blob)\<rparr>))
      | PrepareRaised \<Rightarrow> (False, w)
      | StreamRaised \<Rightarrow>
          (False, emit (FileWrite output_path) (w\<lparr>fs := (fs w)(output_path \<mapsto> Blob)\<rparr>)))"

text \<open>The \<open>try\<close> block of one attempt: \<open>Some b\<close> when it executes \<open>return b\<close>, \<open>None\<close>
  when control reaches the code after the \<open>try\<close> statement.\<close>

definition try_attempt ::
  "downloader \<Rightarrow> string \<Rightarrow> string \<Rightarrow> world \<Rightarrow> bool option \<times> world" where
  "try_attempt self url output_path w =
     (let (r, w1) = session_get self url w in
      case r of
        Raised \<Rightarrow> (None, w1)
      | Status code b \<Rightarrow>
          if code = 200 then
            (let (ok, w2) = save_body output_path b w1
             in if ok then (Some True, w2) else (None, w2))
          else if code = 401 \<or> code = 403 then (Some False, w1)
          else (None, w1))"

definition wait_before_retry :: "int \<Rightarrow> int \<Rightarrow> world \<Rightarrow> world" where
  "wait_before_retry maxr attempt w =
     (if attempt < maxr - 1 then time_sleep (5 * (attempt + 1)) w else w)"

text \<open>\<open>for attempt in range(max_retries)\<close>, from the value \<open>attempt\<close> on.\<close>

function for_attempt ::
  "downloader \<Rightarrow> string \<Rightarrow> string \<Rightarrow> int \<Rightarrow> int \<Rightarrow> world \<Rightarrow> bool \<times> world" where
  "for_attempt self url output_path maxr attempt w =
     (if attempt < maxr then
        (case try_attempt self url output_path w of
           (Some b, w1) \<Rightarrow> (b, w1)
         | (None, w1) \<Rightarrow>
             for_attempt self url output_path maxr (attempt + 1)
               (wait_before_retry maxr attempt w1))
      else (False, w))"
  by pat_completeness auto
termination
  by (relation "measure (\<lambda>(self, url, output_path, maxr, attempt, w). nat (maxr - attempt))")
    auto

definition download_file ::
  "downloader \<Rightarrow> string \<Rightarrow> string \<Rightarrow> int \<Rightarrow> world \<Rightarrow> bool \<times> world" where
  "download_file self url output_path maxr w = for_attempt self url output_path maxr 0 w"

definition download_dataset :: "downloader \<Rightarrow> string \<Rightarrow> world \<Rightarrow> bool \<times> world" where
  "download_dataset self dataset w =
     (let bmodel = body_model (config self);
          gndr = gender (config self);
          odir = output_dir (config self);
          (download_url, filename) = get_download_url self dataset bmodel gndr;
          output_path = os_path_join odir filename
      in if os_path_exists w output_path then (True, w)
         else download_file self download_url output_path (max_retries (config self)) w)"

section \<open>Downloader: the batch\<close>

text \<open>The sequential loop \<open>for i, dataset in enumerate(datasets, 1)\<close>; \<open>n\<close> is
  \<open>len(datasets)\<close>.\<close>

fun download_seq ::
  "downloader \<Rightarrow> int \<Rightarrow> int \<Rightarrow> string list \<Rightarrow> bool dict \<Rightarrow> world \<Rightarrow> bool dict \<times> world" where
  "download_seq self n i [] results w = (results, w)"
| "download_seq self n i (dataset # rest) results w =
     (let (success, w1) = download_dataset self dataset w;
          results1 = dict_set dataset success results;
          w2 = (if i < n then time_sleep 2 w1 else w1)
      in download_seq self n (i + 1) rest results1 w2)"

text \<open>\<open>as_completed\<close>: every pending future is yielded once, in an order the scheduler
  decides (\<open>pk k\<close> selects, among the futures still pending, the \<open>k\<close>-th to complete).\<close>

function as_completed :: "(nat \<Rightarrow> nat) \<Rightarrow> nat \<Rightarrow> 'a list \<Rightarrow> 'a list" where
  "as_completed pk k pending =
     (if pending = [] then []
      else (pending ! (pk k mod length pending))
           # as_completed pk (Suc k)
               (take (pk k mod length pending) pending
                @ drop (Suc (pk k mod length pending)) pending))"
  by pat_completeness auto
termination
proof (relation "measure (\<lambda>(pk, k, pending). length pending)")
  show "wf (measure (\<lambda>(pk :: nat \<Rightarrow> nat, k :: nat, pending :: 'a list). length pending))"
    by simp
next
  fix pk :: "nat \<Rightarrow> nat" and k :: nat and pending :: "'a list"
  assume "pending \<noteq> []"
  then have "pk k mod length pending < length pending"
    by simp
  then show "((pk, Suc k,
               take (pk k mod length pending) pending
               @ drop (Suc (pk k mod length pending)) pending),
              (pk, k, pending))
             \<in> measure (\<lambda>(pk, k, pending). length pending)"
    by simp
qed

declare as_completed.simps [simp del]

text \<open>The loop over the completed futures of \<open>download_all\<close>; a future is identified by
  the position of its dataset in the list.\<close>

fun collect_downloads ::
  "string list \<Rightarrow> (nat \<Rightarrow> bool future) \<Rightarrow> nat list \<Rightarrow> bool dict \<Rightarrow> bool dict" where
  "collect_downloads ds fut [] results = results"
| "collect_downloads ds fut (i # rest) results =
     collect_downloads ds fut rest
       (case fut i of
          Result success \<Rightarrow> dict_set (ds ! i) success results
        | Exc \<Rightarrow> dict_set (ds ! i) False results)"

text \<open>
  \<open>download_all\<close>.  \<open>ThreadPoolExecutor(max_workers=n)\<close> raises \<open>ValueError\<close> unless
  \<open>n > 0\<close>, before anything is submitted.  In the pool branch the calls of
  \<open>download_dataset\<close> run on worker threads: the trace records the creation of the pool
  and the submissions, the value of each future comes from the world, and the requests
  and file writes of the worker threads are not interleaved into the trace.
\<close>

definition download_all :: "downloader \<Rightarrow> world \<Rightarrow> bool dict outcome \<times> world" where
  "download_all self w =
     (let ds = datasets (config self);
          workers = (case max_workers (config self) of None \<Rightarrow> 4 | Some n \<Rightarrow> n)
      in if workers = 1 \<or> length ds = 1 then
           (let (results, w1) = download_seq self (int (length ds)) 1 ds [] w
            in (Returns results, w1))
         else if workers \<le> 0 then (Raises, w)
         else
           (let w1 = foldl (\<lambda>v d. emit (Submit d) v) (emit (PoolCreate workers) w) ds;
                completed = as_completed (pick w) 0 [0..<length ds]
            in (Returns (collect_downloads ds (futures w) completed []), w1)))"

record args =
  arg_config :: string
  arg_dataset :: "string option"
  arg_list :: bool

text \<open>The truth value of an optional command-line string: absent and empty are false.\<close>

fun given :: "string option \<Rightarrow> bool" where
  "given None = False"
| "given (Some s) = (s \<noteq> [])"

text \<open>The part of \<open>main\<close> after \<open>setup_session\<close>: one dataset when \<open>--dataset\<close> is
  given, the whole batch otherwise.\<close>

definition run_downloads :: "downloader \<Rightarrow> args \<Rightarrow> world \<Rightarrow> unit outcome \<times> world" where
  "run_downloads self a w =
     (if given (arg_dataset a) then
        (let (success, w1) = download_dataset self (the (arg_dataset a)) w
         in if success then (Returns (), w1) else (SysExit 1, w1))
      else
        (case download_all self w of
           (Returns results, w1) \<Rightarrow>
             if \<not> all_values results then (SysExit 1, w1) else (Returns (), w1)
         | (SysExit n, w1) \<Rightarrow> (SysExit n, w1)
         | (Raises, w1) \<Rightarrow> (Raises, w1)))"

definition main :: "args \<Rightarrow> world \<Rightarrow> unit outcome \<times> world" where
  "main a w =
     (if arg_list a then (Returns (), w)
      else
        (case load_config w (arg_config a) of
           SysExit n \<Rightarrow> (SysExit n, w)
         | Raises \<Rightarrow> (Raises, w)
         | Returns cfg \<Rightarrow>
             run_downloads (setup_session \<lparr>config = cfg, cookies = []\<rparr> w) a w))"

section \<open>Extractor: the world outside the program\<close>

text \<open>
  What \<open>tarfile\<close> finds at a path: \<open>tarfile.open\<close> or \<open>getmembers\<close> raises
  (\<open>OpenRaises\<close>), or the archive opens and lists its members; for each member the
  boolean says whether \<open>tar.extract\<close> returns (\<open>True\<close>) or raises (\<open>False\<close>).
\<close>

datatype tarball = OpenRaises | Members "bool list"

text \<open>What the main thread does and learns, in order: an \<open>extract_archive\<close> call on a
  path has returned the given result, \<open>os.remove\<close> is called on a path, a pool of the given
  size is created.\<close>

datatype xevent = Extracted string bool | Remove string | Pool int

text \<open>
  \<open>listing d\<close> is \<open>None\<close> when the path \<open>d\<close> does not exist, and otherwise the children
  of \<open>d\<close> as \<open>pathlib\<close> renders them (none for a plain file); \<open>present\<close> is
  \<open>os.path.exists\<close>; \<open>makedirs_ok\<close> and \<open>remove_ok\<close> say whether \<open>os.makedirs\<close> and
  \<open>os.remove\<close> return rather than raise; \<open>xpick\<close> is the pool's scheduler; \<open>xtrace\<close>
  is the list of events so far.
\<close>

record xworld =
  listing :: "string \<Rightarrow> string list option"
  present :: "string \<Rightarrow> bool"
  tarballs :: "string \<Rightarrow> tarball"
  makedirs_ok :: "string \<Rightarrow> bool"
  remove_ok :: "string \<Rightarrow> bool"
  xpick :: "nat \<Rightarrow> nat"
  xtrace :: "xevent list"

definition xemit :: "xevent \<Rightarrow> xworld \<Rightarrow> xworld" where
  "xemit e w = w\<lparr>xtrace := xtrace w @ [e]\<rparr>"

section \<open>Extractor\<close>

text \<open>\<open>input_path.glob("*.tar.bz2")\<close> keeps the children whose name, hence whose path,
  ends with the suffix.\<close>

definition find_archives :: "xworld \<Rightarrow> string \<Rightarrow> string list" where
  "find_archives w input_dir =
     (case listing w input_dir of
        None \<Rightarrow> []
      | Some children \<Rightarrow> filter (suffix ''.tar.bz2'') children)"

text \<open>The member loop: the first \<open>tar.extract\<close> that raises ends it.\<close>

fun extract_members :: "bool list \<Rightarrow> bool" where
  "extract_members [] = True"
| "extract_members (m # ms) = (if m then extract_members ms else False)"

definition extract_archive :: "string \<Rightarrow> string \<Rightarrow> xworld \<Rightarrow> bool \<times> xworld" where
  "extract_archive archive_path odir w =
     (let success =
            (if \<not> makedirs_ok w odir then False
             else
               (case tarballs w archive_path of
                  OpenRaises \<Rightarrow> False
                | Members ms \<Rightarrow> extract_members ms))
      in (success, xemit (Extracted archive_path success) w))"

text \<open>\<open>os.remove\<close> inside its \<open>try\<close>: a failure is logged and nothing else changes.\<close>

definition try_remove :: "string \<Rightarrow> xworld \<Rightarrow> xworld" where
  "try_remove path w =
     (let w1 = xemit (Remove path) w in
      if remove_ok w path then
        w1\<lparr>listing := (\<lambda>d. map_option (removeAll path) (listing w d)),
            present := (present w)(path := False)\<rparr>
      else w1)"

text \<open>The body shared by the sequential loop and by the loop over completed futures:
  record the result, then delete the archive when asked and extraction succeeded.\<close>

fun extract_each ::
  "string \<Rightarrow> bool \<Rightarrow> string list \<Rightarrow> bool dict \<Rightarrow> xworld \<Rightarrow> bool dict \<times> xworld" where
  "extract_each odir del [] results w = (results, w)"
| "extract_each odir del (archive # rest) results w =
     (let (success, w1) = extract_archive archive odir w;
          results1 = dict_set archive success results;
          w2 = (if success \<and> del then try_remove archive w1 else w1)
      in extract_each odir del rest results1 w2)"

text \<open>
  \<open>extract_all\<close>.  With one worker the archives are taken in the order found; otherwise
  a pool is created (\<open>ValueError\<close> unless the worker count is positive) and the archives
  are taken in the order in which their futures complete.  On the pool the extractions
  run on worker threads; the model performs each one when its future is collected,
  which gives the same results since what \<open>tarfile\<close> finds in one archive does not depend
  on the other archives.
\<close>

definition extract_all ::
  "string \<Rightarrow> string \<Rightarrow> int \<Rightarrow> bool \<Rightarrow> xworld \<Rightarrow> bool dict outcome \<times> xworld" where
  "extract_all input_dir odir workers del w =
     (let archives = find_archives w input_dir in
      if archives = [] then (Returns [], w)
      else if workers = 1 then
        (let (results, w1) = extract_each odir del archives [] w in (Returns results, w1))
      else if workers \<le> 0 then (Raises, w)
      else
        (let (results, w1) =
               extract_each odir del (as_completed (xpick w) 0 archives) []
                 (xemit (Pool workers) w)
         in (Returns results, w1)))"

text \<open>\<open>print_summary\<close>: the three numbers it logs (total, succeeded, failed).\<close>

definition print_summary :: "bool dict \<Rightarrow> nat \<times> nat \<times> nat" where
  "print_summary results =
     (let total = length results;
          success = length (filter snd results)
      in (total, success, total - success))"

record xargs =
  arg_input :: "string option"
  arg_output :: "string option"
  arg_workers :: int
  arg_delete :: bool
  arg_file :: "string option"

text \<open>The input and output directories \<open>main\<close> settles on.\<close>

definition input_dir_of :: "config \<Rightarrow> xargs \<Rightarrow> string" where
  "input_dir_of cfg a = (if given (arg_input a) then the (arg_input a) else output_dir cfg)"

definition output_dir_of :: "config \<Rightarrow> xargs \<Rightarrow> string" where
  "output_dir_of cfg a =
     (if given (arg_output a) then the (arg_output a)
      else os_path_join (output_dir cfg) ''extracted'')"

text \<open>\<open>main\<close> of the extractor, from the point where the configuration is loaded.\<close>

definition xmain :: "config \<Rightarrow> xargs \<Rightarrow> xworld \<Rightarrow> unit outcome \<times> xworld" where
  "xmain cfg a w =
     (let input_dir = input_dir_of cfg a;
          odir = output_dir_of cfg a
      in if given (arg_file a) then
           (if \<not> present w (the (arg_file a)) then (SysExit 1, w)
            else
              (let (success, w1) = extract_archive (the (arg_file a)) odir w in
               if success then
                 (Returns (), if arg_delete a then try_remove (the (arg_file a)) w1 else w1)
               else (SysExit 1, w1)))
         else
           (case extract_all input_dir odir (arg_workers a) (arg_delete a) w of
              (Returns results, w1) \<Rightarrow>
                if \<not> all_values results then (SysExit 1, w1) else (Returns (), w1)
            | (SysExit n, w1) \<Rightarrow> (SysExit n, w1)
            | (Raises, w1) \<Rightarrow> (Raises, w1)))"

section \<open>Vocabulary of the statements\<close>


text \<open>The archives whose extraction a list of events reports as failed, and the events a
  run added to the trace.\<close>

fun failures :: "xevent list \<Rightarrow> string list" where
  "failures [] = []"
| "failures (Extracted a ok # es) = (if ok then failures es else a # failures es)"
| "failures (e # es) = failures es"

definition new_events :: "xworld \<Rightarrow> xworld \<Rightarrow> xevent list" where
  "new_events w w' = drop (length (xtrace w)) (xtrace w')"

text \<open>The arguments of the \<open>time.sleep\<close> calls of a trace, in order.\<close>

fun sleeps :: "event list \<Rightarrow> int list" where
  "sleeps [] = []"
| "sleeps (Sleep s # es) = s # sleeps es"
| "sleeps (e # es) = sleeps es"

section \<open>Example inputs\<close>

definition world_of :: "(nat \<Rightarrow> reply) \<Rightarrow> world" where
  "world_of rs =
     \<lparr>fs = Map.empty, replies = rs, sent = 0, json_load = (\<lambda>_. None),
      futures = (\<lambda>_. Exc), pick = (\<lambda>_. 0), trace = []\<rparr>"

definition cfg0 :: config where
  "cfg0 = \<lparr>output_dir = ''data'', cookie_file = ''cookies.txt'', timeout = 30,
           max_retries = 3, max_workers = Some 1, body_model = ''SMPL-H'',
           gender = ''male'', datasets = [''ACCAD'', ''CMU'']\<rparr>"

definition self0 :: downloader where
  "self0 = \<lparr>config = cfg0, cookies = []\<rparr>"


definition replies_500 :: "nat \<Rightarrow> reply" where
  "replies_500 n = Status 500 PrepareRaised"


definition replies_500_401 :: "nat \<Rightarrow> reply" where
  "replies_500_401 n = (if n = 0 then Status 500 PrepareRaised else Status 401 PrepareRaised)"

definition archive_path0 :: string where
  "archive_path0 = ''data/ACCAD_smplh_male.tar.bz2''"

definition world_with_archive :: world where
  "world_with_archive = (world_of replies_500)\<lparr>fs := [archive_path0 \<mapsto> Blob]\<rparr>"

definition world_no_cookie_file :: world where
  "world_no_cookie_file =
     \<lparr>fs = [''config.json'' \<mapsto> Lines [''{}'']], replies = (\<lambda>_. Status 200 Saved), sent = 0,
      json_load = (\<lambda>_. Some cfg0), futures = (\<lambda>_. Exc), pick = (\<lambda>_. 0), trace = []\<rparr>"

definition args0 :: args where
  "args0 = \<lparr>arg_config = ''config.json'', arg_dataset = Some ''ACCAD'', arg_list = False\<rparr>"

definition args_missing :: args where
  "args_missing = \<lparr>arg_config = ''nowhere.json'', arg_dataset = None, arg_list = False\<rparr>"



section \<open>Example cookie files\<close>






text \<open>The events one archive adds to the trace in \<open>extract_all\<close>: the result of its
  extraction and, after a success with the delete option set, the call of \<open>os.remove\<close>.\<close>

definition archive_events :: "string \<Rightarrow> bool \<Rightarrow> xworld \<Rightarrow> string \<Rightarrow> xevent list" where
  "archive_events odir del w a =
     (let success = fst (extract_archive a odir w)
      in Extracted a success # (if success \<and> del then [Remove a] else []))"

section \<open>Example directories\<close>

definition xworld0 :: xworld where
  "xworld0 =
     \<lparr>listing = [''data'' \<mapsto> [''data/a.tar.bz2'', ''data/b.tar.bz2'', ''data/notes.txt''],
                 ''empty'' \<mapsto> [''empty/notes.txt'']],
      present = (\<lambda>p. p \<in> set [''data'', ''data/a.tar.bz2'', ''data/b.tar.bz2'',
                                  ''data/notes.txt'', ''empty'', ''empty/notes.txt'']),
      tarballs = (\<lambda>p. if p = ''data/b.tar.bz2'' then OpenRaises else Members [True, True]),
      makedirs_ok = (\<lambda>_. True),
      remove_ok = (\<lambda>_. False),
      xpick = (\<lambda>_. 1),
      xtrace = []\<rparr>"

definition xargs_batch :: "string \<Rightarrow> int \<Rightarrow> bool \<Rightarrow> xargs" where
  "xargs_batch d n del =
     \<lparr>arg_input = Some d, arg_output = None, arg_workers = n, arg_delete = del,
      arg_file = None\<rparr>"

section \<open>Vocabulary of the statements: the download batch\<close>




section \<open>Example batches\<close>






section \<open>Theorems: download URL\<close>

text \<open>
  C1.  For every dataset name, body model and gender, and whatever the downloader object
  holds, \<open>get_download_url\<close> returns the pair made of the fixed endpoint followed by
  \<open>?domain=amass&resume=1&sfile=amass_per_dataset/<model_dir>/<gender_dir>/mosh_results/<dataset>.tar.bz2\<close>
  and of the file name \<open><dataset>_<model_dir>_<gender>.tar.bz2\<close>, where the model
  directory is \<open>smplh\<close> for \<open>SMPL-H\<close>, \<open>smplx\<close> for \<open>SMPL-X\<close> and \<open>smplh\<close> for
  anything else, and the gender directory is \<open>gender_specific\<close> for \<open>male\<close> and
  \<open>female\<close> and \<open>neutral\<close> otherwise.  The right-hand side does not mention the
  object: the result depends on the three arguments only.
\<close>

theorem get_download_url_spec:
  "get_download_url self dataset bmodel gndr =
     (''https://download.is.tue.mpg.de/download.php?domain=amass&resume=1&sfile=amass_per_dataset/''
        @ spec_model_dir bmodel @ ''/'' @ spec_gender_dir gndr @ ''/mosh_results/''
        @ dataset @ ''.tar.bz2'',
      dataset @ ''_'' @ spec_model_dir bmodel @ ''_'' @ gndr @ ''.tar.bz2'')"
  by (simp add: get_download_url_def spec_model_dir_def spec_gender_dir_def
      DOWNLOAD_URL_def Let_def)

section \<open>Lemmas: the retry loop\<close>

lemma sleeps_append [simp]: "sleeps (xs @ ys) = sleeps xs @ sleeps ys"
  by (induction xs rule: sleeps.induct) auto



lemma wait_sent [simp]: "sent (wait_before_retry m a w) = sent w"
  by (simp add: wait_before_retry_def time_sleep_def emit_def)

lemma wait_replies [simp]: "replies (wait_before_retry m a w) = replies w"
  by (simp add: wait_before_retry_def time_sleep_def emit_def)






lemma session_get_sent [simp]: "sent (snd (session_get self url w)) = Suc (sent w)"
  by (simp add: session_get_def emit_def)

lemma try_attempt_sent: "try_attempt self url p w = (r, w1) \<Longrightarrow> sent w1 = Suc (sent w)"
  by (auto simp: try_attempt_def session_get_def save_body_def emit_def Let_def
      split: reply.splits body.splits if_splits)

lemma try_attempt_replies: "try_attempt self url p w = (r, w1) \<Longrightarrow> replies w1 = replies w"
  by (auto simp: try_attempt_def session_get_def save_body_def emit_def Let_def
      split: reply.splits body.splits if_splits)

lemma try_attempt_auth:
  "replies w (sent w) = Status c b \<Longrightarrow> c = 401 \<or> c = 403 \<Longrightarrow>
   try_attempt self url p w = (Some False, emit (HttpGet url (cookies self)) (w\<lparr>sent := sent w + 1\<rparr>))"
  by (auto simp: try_attempt_def session_get_def)

lemma for_attempt_auth:
  "for_attempt self url p maxr attempt w = (r, w') \<Longrightarrow> sent w + j < sent w' \<Longrightarrow>
   replies w (sent w + j) = Status c b \<Longrightarrow> c = 401 \<or> c = 403 \<Longrightarrow>
   r = False \<and> sent w' = Suc (sent w + j) \<and> trace w' \<noteq> [] \<and> last (trace w') = HttpGet url (cookies self)"
proof (induction self url p maxr attempt w arbitrary: j rule: for_attempt.induct)
  case (1 self url p maxr attempt w)
  show ?case
  proof (cases "attempt < maxr")
    case False
    with "1.prems" show ?thesis by simp
  next
    case True
    obtain o1 w1 where t: "try_attempt self url p w = (o1, w1)" by force
    have s1: "sent w1 = Suc (sent w)" and r1: "replies w1 = replies w"
      using t try_attempt_sent try_attempt_replies by blast+
    show ?thesis
    proof (cases j)
      case 0
      with "1.prems" have "try_attempt self url p w = (Some False, emit (HttpGet url (cookies self)) (w\<lparr>sent := sent w + 1\<rparr>))"
        using try_attempt_auth by simp
      with True "1.prems" 0 show ?thesis
        by (subst (asm) for_attempt.simps) (auto simp: emit_def)
    next
      case (Suc j')
      show ?thesis
      proof (cases o1)
        case (Some b')
        with True t "1.prems"(1) have "w' = w1"
          by (subst (asm) for_attempt.simps) simp
        with s1 "1.prems"(2) Suc show ?thesis by simp
      next
        case None
        let ?w2 = "wait_before_retry maxr attempt w1"
        from None True t "1.prems"(1)
        have rec: "for_attempt self url p maxr (attempt + 1) ?w2 = (r, w')"
          by (subst (asm) for_attempt.simps) simp
        have "r = False \<and> sent w' = Suc (sent ?w2 + j') \<and> trace w' \<noteq> [] \<and> last (trace w') = HttpGet url (cookies self)"
        proof (rule "1.IH"[OF True _ _ rec])
          show "(o1, w1) = try_attempt self url p w" using t by simp
          show "o1 = None" by (rule None)
          show "sent ?w2 + j' < sent w'" using "1.prems"(2) Suc s1 by simp
          show "replies ?w2 (sent ?w2 + j') = Status c b" using "1.prems"(3) Suc s1 r1 by simp
          show "c = 401 \<or> c = 403" by (rule "1.prems"(4))
        qed
        then show ?thesis using s1 Suc by simp
      qed
    qed
  qed
qed


section \<open>Theorems: retrying a download\<close>






text \<open>
  C3.  If the \<open>(j+1)\<close>-th GET that a call of \<open>download_file\<close> makes is answered with
  status 401 or 403, the call returns \<open>False\<close>, that GET is the last one of the call, and
  the GET is the last thing the call does: no sleep follows it.
\<close>

theorem download_file_auth_failure:
  assumes "download_file self url p maxr w = (r, w')"
    and "sent w + j < sent w'"
    and "replies w (sent w + j) = Status c b"
    and "c = 401 \<or> c = 403"
  shows "r = False \<and> sent w' = Suc (sent w + j) \<and> trace w' \<noteq> []
         \<and> last (trace w') = HttpGet url (cookies self)"
  using assms for_attempt_auth[of self url p maxr 0 w r w' j c b]
  by (simp add: download_file_def)

theorem download_file_auth_failure_witness:
  "fst (download_file self0 ''u'' ''p'' 3 (world_of replies_500_401)) = False
   \<and> sent (snd (download_file self0 ''u'' ''p'' 3 (world_of replies_500_401))) = 2
   \<and> trace (snd (download_file self0 ''u'' ''p'' 3 (world_of replies_500_401)))
       = [HttpGet ''u'' [], Sleep 5, HttpGet ''u'' []]"
proof -
  let ?w = "world_of replies_500_401"
  have ev: "download_file self0 ''u'' ''p'' 3 ?w =
      (False, ?w\<lparr>sent := 2, trace := [HttpGet ''u'' [], Sleep 5, HttpGet ''u'' []]\<rparr>)"
    by (simp add: download_file_def for_attempt.simps try_attempt_def session_get_def
        wait_before_retry_def time_sleep_def emit_def world_of_def replies_500_401_def
        self0_def)
  have "fst (download_file self0 ''u'' ''p'' 3 ?w) = False
        \<and> sent (snd (download_file self0 ''u'' ''p'' 3 ?w)) = Suc (sent ?w + 1)
        \<and> trace (snd (download_file self0 ''u'' ''p'' 3 ?w)) \<noteq> []
        \<and> last (trace (snd (download_file self0 ''u'' ''p'' 3 ?w))) = HttpGet ''u'' (cookies self0)"
  proof (rule download_file_auth_failure[where b = PrepareRaised and c = 401])
    show "download_file self0 ''u'' ''p'' 3 ?w
          = (fst (download_file self0 ''u'' ''p'' 3 ?w), snd (download_file self0 ''u'' ''p'' 3 ?w))"
      by simp
    show "sent ?w + 1 < sent (snd (download_file self0 ''u'' ''p'' 3 ?w))"
      by (simp add: ev) (simp add: world_of_def)
    show "replies ?w (sent ?w + 1) = Status 401 PrepareRaised"
      by (simp add: world_of_def replies_500_401_def)
    show "(401::int) = 401 \<or> (401::int) = 403" by simp
  qed
  then show ?thesis by (simp add: ev)
qed

section \<open>Theorems: skipping an existing file\<close>

lemma os_path_join_plain:
  "a \<noteq> [] \<Longrightarrow> last a \<noteq> CHR ''/'' \<Longrightarrow> b = [] \<or> hd b \<noteq> CHR ''/'' \<Longrightarrow>
   os_path_join a b = a @ ''/'' @ b"
  by (auto simp: os_path_join_def)

text \<open>
  C4.  The destination is \<open>os.path.join(output_dir, filename)\<close> with the file name of
  C1.  If it exists, \<open>download_dataset\<close> returns \<open>True\<close> and leaves the world as it was:
  no GET is sent, nothing is added to the trace (no request, no file write, no sleep),
  the file table is unchanged.  Calling it again in the state it returned therefore
  gives the same answer and the same state.
\<close>

theorem download_dataset_existing:
  assumes "os_path_exists w
             (os_path_join (output_dir (config self))
                (dataset @ ''_'' @ spec_model_dir (body_model (config self)) @ ''_''
                   @ gender (config self) @ ''.tar.bz2''))"
  shows "download_dataset self dataset w = (True, w)
         \<and> sent (snd (download_dataset self dataset w)) = sent w
         \<and> trace (snd (download_dataset self dataset w)) = trace w
         \<and> fs (snd (download_dataset self dataset w)) = fs w
         \<and> download_dataset self dataset (snd (download_dataset self dataset w)) = (True, w)"
  using assms
  by (simp add: download_dataset_def get_download_url_def spec_model_dir_def Let_def)

theorem download_dataset_existing_witness:
  "download_dataset self0 ''ACCAD'' world_with_archive = (True, world_with_archive)
   \<and> trace (snd (download_dataset self0 ''ACCAD'' world_with_archive)) = []
   \<and> sent (snd (download_dataset self0 ''ACCAD'' world_with_archive)) = 0"
proof -
  have "os_path_exists world_with_archive
             (os_path_join (output_dir (config self0))
                (''ACCAD'' @ ''_'' @ spec_model_dir (body_model (config self0)) @ ''_''
                   @ gender (config self0) @ ''.tar.bz2''))"
    by (simp add: os_path_exists_def os_path_join_def self0_def cfg0_def spec_model_dir_def
        world_with_archive_def archive_path0_def)
  from download_dataset_existing[OF this] show ?thesis
    by (simp add: world_with_archive_def world_of_def)
qed


section \<open>Theorems: a missing cookie file\<close>

text \<open>
  C9.  When the cookie file does not exist, or exists and reading it raises (at
  \<open>open\<close> or after some lines), \<open>load_cookies_from_file\<close> returns the empty mapping.
  \<open>setup_session\<close> then leaves the session without cookies and \<open>main\<close> goes on to the
  downloads, whose requests carry no cookie.  A configuration file that does not exist
  ends \<open>main\<close> with \<open>sys.exit(1)\<close> before anything else happens.
\<close>

theorem missing_cookie_file_continues:
  "(fs w path = None \<or> fs w path = Some (Unreadable ls) \<longrightarrow> load_cookies_from_file w path = [])
   \<and> (\<not> arg_list a \<and> load_config w (arg_config a) = Returns cfg
        \<and> (fs w (cookie_file cfg) = None \<or> fs w (cookie_file cfg) = Some (Unreadable ls))
      \<longrightarrow> setup_session \<lparr>config = cfg, cookies = []\<rparr> w = \<lparr>config = cfg, cookies = []\<rparr>
          \<and> main a w = run_downloads \<lparr>config = cfg, cookies = []\<rparr> a w)
   \<and> (\<not> arg_list a \<and> fs w (arg_config a) = None \<longrightarrow> main a w = (SysExit 1, w))"
  by (auto simp: load_cookies_from_file_def os_path_exists_def setup_session_def main_def
      load_config_def)

theorem missing_cookie_file_continues_witness:
  "load_cookies_from_file world_no_cookie_file ''cookies.txt'' = []
   \<and> fst (main args0 world_no_cookie_file) = Returns ()
   \<and> trace (snd (main args0 world_no_cookie_file))
        = [HttpGet ''https://download.is.tue.mpg.de/download.php?domain=amass&resume=1&sfile=amass_per_dataset/smplh/gender_specific/mosh_results/ACCAD.tar.bz2'' [],
           FileWrite ''data/ACCAD_smplh_male.tar.bz2'']
   \<and> main args_missing world_no_cookie_file = (SysExit 1, world_no_cookie_file)"
proof -
  have c: "load_config world_no_cookie_file (arg_config args0) = Returns cfg0"
    by (simp add: load_config_def world_no_cookie_file_def args0_def)
  have f: "fs world_no_cookie_file (cookie_file cfg0) = None"
    by (simp add: world_no_cookie_file_def cfg0_def)
  have f': "fs world_no_cookie_file ''cookies.txt'' = None"
    by (simp add: world_no_cookie_file_def)
  have m: "fs world_no_cookie_file (arg_config args_missing) = None"
    by (simp add: world_no_cookie_file_def args_missing_def)
  have l: "\<not> arg_list args0" "\<not> arg_list args_missing"
    by (simp_all add: args0_def args_missing_def)
  have r: "run_downloads \<lparr>config = cfg0, cookies = []\<rparr> args0 world_no_cookie_file =
     (Returns (), world_no_cookie_file\<lparr>fs := (fs world_no_cookie_file)(''data/ACCAD_smplh_male.tar.bz2'' \<mapsto> Blob),
        sent := 1,
        trace := [HttpGet ''https://download.is.tue.mpg.de/download.php?domain=amass&resume=1&sfile=amass_per_dataset/smplh/gender_specific/mosh_results/ACCAD.tar.bz2'' [],
           FileWrite ''data/ACCAD_smplh_male.tar.bz2'']\<rparr>)"
    by (simp add: run_downloads_def args0_def download_dataset_def get_download_url_def
        DOWNLOAD_URL_def cfg0_def os_path_join_def os_path_exists_def world_no_cookie_file_def
        download_file_def for_attempt.simps try_attempt_def session_get_def save_body_def
        emit_def Let_def)
  show ?thesis
    using missing_cookie_file_continues[of world_no_cookie_file "''cookies.txt''" "[]" args0 cfg0]
      missing_cookie_file_continues[of world_no_cookie_file "''cookies.txt''" "[]" args_missing cfg0]
      c f f' m l r
    by simp
qed

section \<open>Lemmas: cookie lines\<close>






section \<open>Theorems: the cookie file\<close>




section \<open>Lemmas: extracting archives\<close>

lemma extract_archive_cong:
  "tarballs w' = tarballs w \<Longrightarrow> makedirs_ok w' = makedirs_ok w \<Longrightarrow>
   fst (extract_archive a odir w') = fst (extract_archive a odir w)"
  by (simp add: extract_archive_def Let_def)

lemma archive_events_cong:
  "tarballs w' = tarballs w \<Longrightarrow> makedirs_ok w' = makedirs_ok w \<Longrightarrow>
   archive_events odir del w' = archive_events odir del w"
  by (rule ext) (simp add: archive_events_def extract_archive_cong[of w' w])

lemma extract_archive_snd:
  "snd (extract_archive a odir w) = xemit (Extracted a (fst (extract_archive a odir w))) w"
  by (simp add: extract_archive_def Let_def)

lemma xemit_fields [simp]:
  "tarballs (xemit e w) = tarballs w" "makedirs_ok (xemit e w) = makedirs_ok w"
  "remove_ok (xemit e w) = remove_ok w" "xtrace (xemit e w) = xtrace w @ [e]"
  "listing (xemit e w) = listing w" "xpick (xemit e w) = xpick w"
  by (simp_all add: xemit_def)

lemma try_remove_fields [simp]:
  "tarballs (try_remove a w) = tarballs w" "makedirs_ok (try_remove a w) = makedirs_ok w"
  "remove_ok (try_remove a w) = remove_ok w" "xtrace (try_remove a w) = xtrace w @ [Remove a]"
  by (simp_all add: try_remove_def Let_def)

lemma extract_each_run:
  "extract_each odir del xs results w = (res', w') \<Longrightarrow>
     xtrace w' = xtrace w @ concat (map (archive_events odir del w) xs)
     \<and> tarballs w' = tarballs w \<and> makedirs_ok w' = makedirs_ok w \<and> remove_ok w' = remove_ok w
     \<and> map_of res' = (\<lambda>k. if k \<in> set xs then Some (fst (extract_archive k odir w))
                            else map_of results k)
     \<and> fst ` set res' = fst ` set results \<union> set xs
     \<and> (distinct (map fst results) \<longrightarrow> distinct (map fst res'))"
proof (induction xs arbitrary: results w)
  case Nil
  then show ?case by simp
next
  case (Cons a xs)
  obtain ok w1 where e: "extract_archive a odir w = (ok, w1)"
    by force
  have okd: "ok = fst (extract_archive a odir w)" and w1d: "w1 = xemit (Extracted a ok) w"
    using e extract_archive_snd[of a odir w] by simp_all
  define w2 where "w2 = (if ok \<and> del then try_remove a w1 else w1)"
  define r1 where "r1 = dict_set a ok results"
  from Cons.prems have rec: "extract_each odir del xs r1 w2 = (res', w')"
    by (simp add: e Let_def w2_def r1_def)
  have t: "tarballs w2 = tarballs w" "makedirs_ok w2 = makedirs_ok w" "remove_ok w2 = remove_ok w"
    by (simp_all add: w2_def w1d)
  have ev: "archive_events odir del w2 = archive_events odir del w"
    by (rule archive_events_cong) (simp_all only: t)
  have ok: "\<And>k. fst (extract_archive k odir w2) = fst (extract_archive k odir w)"
    by (rule extract_archive_cong) (simp_all only: t)
  have tr: "xtrace w2 = xtrace w @ archive_events odir del w a"
    by (simp add: archive_events_def Let_def w2_def w1d okd[symmetric])
  have m1: "map_of r1 = (map_of results)(a \<mapsto> ok)"
    by (simp add: r1_def dict_set_def update_conv')
  have k1: "fst ` set r1 = {a} \<union> fst ` set results"
    by (simp add: r1_def dict_set_def dom_update)
  have d1: "distinct (map fst results) \<Longrightarrow> distinct (map fst r1)"
    by (simp add: r1_def dict_set_def distinct_update)
  note IH = Cons.IH[OF rec]
  from IH have "xtrace w' = xtrace w2 @ concat (map (archive_events odir del w2) xs)"
    by (rule conjunct1)
  then have 1: "xtrace w' = xtrace w @ concat (map (archive_events odir del w) (a # xs))"
    by (simp add: ev tr)
  from IH have 2: "tarballs w' = tarballs w \<and> makedirs_ok w' = makedirs_ok w \<and> remove_ok w' = remove_ok w"
    by (simp only: t) 
  from IH have "map_of res' = (\<lambda>k. if k \<in> set xs then Some (fst (extract_archive k odir w2))
                            else map_of r1 k)"
    by blast
  then have 3: "map_of res' = (\<lambda>k. if k \<in> set (a # xs) then Some (fst (extract_archive k odir w))
                            else map_of results k)"
    by (auto simp: ok m1 okd fun_eq_iff)
  from IH have "fst ` set res' = fst ` set r1 \<union> set xs"
    by blast
  then have 4: "fst ` set res' = fst ` set results \<union> set (a # xs)"
    by (auto simp: k1)
  from IH have "distinct (map fst r1) \<longrightarrow> distinct (map fst res')"
    by blast
  with d1 have 5: "distinct (map fst results) \<longrightarrow> distinct (map fst res')"
    by blast
  from 1 2 3 4 5 show ?case by (elim conjE, intro conjI) assumption+
qed

lemma failures_append [simp]: "failures (xs @ ys) = failures xs @ failures ys"
  by (induction xs rule: failures.induct) auto


lemma set_archive_events:
  "set (concat (map (archive_events odir del w) xs)) =
     (\<lambda>a. Extracted a (fst (extract_archive a odir w))) ` set xs
     \<union> Remove ` {a \<in> set xs. fst (extract_archive a odir w) \<and> del}"
  by (induction xs) (auto simp: archive_events_def Let_def)

lemma mset_as_completed: "mset (as_completed pk k xs) = mset xs"
proof (induction pk k xs rule: as_completed.induct)
  case (1 pk k pending)
  show ?case
  proof (cases "pending = []")
    case True
    then show ?thesis by (subst as_completed.simps) simp
  next
    case False
    let ?i = "pk k mod length pending"
    have i: "?i < length pending" using False by simp
    have "mset (as_completed pk k pending) =
          add_mset (pending ! ?i) (mset (take ?i pending @ drop (Suc ?i) pending))"
      using False "1.IH" by (subst as_completed.simps) simp
    also have "\<dots> = mset (take ?i pending @ pending ! ?i # drop (Suc ?i) pending)"
      by simp
    also have "\<dots> = mset pending"
      using id_take_nth_drop[OF i] by simp
    finally show ?thesis .
  qed
qed

lemma set_as_completed [simp]: "set (as_completed pk k xs) = set xs"
  using mset_as_completed[of pk k xs] by (rule mset_eq_setD)

lemma distinct_as_completed [simp]: "distinct (as_completed pk k xs) = distinct xs"
  using mset_as_completed[of pk k xs] by (rule mset_eq_imp_distinct_iff)

lemma length_as_completed [simp]: "length (as_completed pk k xs) = length xs"
  using mset_as_completed[of pk k xs] by (rule mset_eq_length)

lemma extract_all_cases:
  assumes "extract_all input_dir odir workers del w = (r, w')"
  shows "(r = Returns [] \<and> w' = w \<and> find_archives w input_dir = [])
       \<or> (r = Raises \<and> w' = w)
       \<or> (\<exists>xs res pre. r = Returns res \<and> mset xs = mset (find_archives w input_dir)
             \<and> (pre = [] \<or> pre = [Pool workers])
             \<and> xtrace w' = xtrace w @ pre @ concat (map (archive_events odir del w) xs)
             \<and> map_of res = (\<lambda>k. if k \<in> set xs then Some (fst (extract_archive k odir w))
                                   else None)
             \<and> fst ` set res = set xs \<and> distinct (map fst res))"
proof -
  let ?as = "find_archives w input_dir"
  consider (none) "?as = []" | (seq) "?as \<noteq> []" "workers = 1"
    | (bad) "?as \<noteq> []" "workers \<noteq> 1" "workers \<le> 0"
    | (par) "?as \<noteq> []" "workers \<noteq> 1" "0 < workers"
    by linarith
  then show ?thesis
  proof cases
    case none
    with assms show ?thesis by (simp add: extract_all_def)
  next
    case bad
    with assms show ?thesis by (simp add: extract_all_def)
  next
    case seq
    obtain res w1 where e: "extract_each odir del ?as [] w = (res, w1)" by force
    with assms seq have rw: "r = Returns res" "w' = w1" by (simp_all add: extract_all_def)
    from extract_each_run[OF e] rw
    have "r = Returns res \<and> mset ?as = mset ?as \<and> ([] = [] \<or> [] = [Pool workers])
        \<and> xtrace w' = xtrace w @ [] @ concat (map (archive_events odir del w) ?as)
        \<and> map_of res = (\<lambda>k. if k \<in> set ?as then Some (fst (extract_archive k odir w)) else None)
        \<and> fst ` set res = set ?as \<and> distinct (map fst res)"
      by (simp cong: if_cong)
    then show ?thesis by blast
  next
    case par
    let ?w0 = "xemit (Pool workers) w"
    let ?xs = "as_completed (xpick w) 0 ?as"
    obtain res w1 where e: "extract_each odir del ?xs [] ?w0 = (res, w1)" by force
    with assms par have rw: "r = Returns res" "w' = w1" by (simp_all add: extract_all_def)
    have ev: "archive_events odir del ?w0 = archive_events odir del w"
      by (rule archive_events_cong) simp_all
    have ok: "\<And>k. fst (extract_archive k odir ?w0) = fst (extract_archive k odir w)"
      by (rule extract_archive_cong) simp_all
    from extract_each_run[OF e] rw
    have "r = Returns res \<and> mset ?xs = mset ?as \<and> ([Pool workers] = [] \<or> [Pool workers] = [Pool workers])
        \<and> xtrace w' = xtrace w @ [Pool workers] @ concat (map (archive_events odir del w) ?xs)
        \<and> map_of res = (\<lambda>k. if k \<in> set ?xs then Some (fst (extract_archive k odir w)) else None)
        \<and> fst ` set res = set ?xs \<and> distinct (map fst res)"
      by (simp add: ev ok mset_as_completed cong: if_cong)
    then show ?thesis by blast
  qed
qed



lemma new_events_append: "xtrace w' = xtrace w @ es \<Longrightarrow> new_events w w' = es"
  by (simp add: new_events_def)

section \<open>Theorems: batch extraction\<close>



text \<open>
  C7.  With the delete option set, in every run of \<open>extract_all\<close>: \<open>os.remove\<close> is called
  on an archive exactly when the extraction of that archive succeeded; after a failed
  extraction it is not called; and when it is called and fails, the archive is still
  recorded as a success in the result.
\<close>

theorem delete_only_after_success:
  assumes "extract_all input_dir odir workers True w = (r, w')"
  shows "(Remove a \<in> set (new_events w w') \<longleftrightarrow> Extracted a True \<in> set (new_events w w'))
       \<and> (Extracted a False \<in> set (new_events w w') \<longrightarrow> Remove a \<notin> set (new_events w w'))
       \<and> (Extracted a True \<in> set (new_events w w')
            \<longrightarrow> (\<exists>results. r = Returns results \<and> map_of results a = Some True))
       \<and> (Remove a \<in> set (new_events w w') \<and> \<not> remove_ok w a
            \<longrightarrow> (\<exists>results. r = Returns results \<and> map_of results a = Some True))"
proof -
  let ?ok = "\<lambda>k. fst (extract_archive k odir w)"
  from extract_all_cases[OF assms]
  consider (idle) "w' = w"
    | (ran) xs res pre where "r = Returns res" "pre = [] \<or> pre = [Pool workers]"
        "xtrace w' = xtrace w @ pre @ concat (map (archive_events odir True w) xs)"
        "map_of res = (\<lambda>k. if k \<in> set xs then Some (?ok k) else None)"
    by blast
  then show ?thesis
  proof cases
    case idle
    then show ?thesis by (simp add: new_events_def)
  next
    case ran
    have "new_events w w' = pre @ concat (map (archive_events odir True w) xs)"
      using ran(3) by (rule new_events_append)
    then have "set (new_events w w')
        = set pre \<union> set (concat (map (archive_events odir True w) xs))"
      by (simp only: set_append)
    then have s: "set (new_events w w')
        = set pre \<union> (\<lambda>k. Extracted k (?ok k)) ` set xs \<union> Remove ` {k \<in> set xs. ?ok k}"
      by (simp only: set_archive_events) (simp add: Un_assoc)
    have p: "Remove a \<notin> set pre" "Extracted a True \<notin> set pre" "Extracted a False \<notin> set pre"
      using ran(2) by auto
    have 1: "Remove a \<in> set (new_events w w') \<longleftrightarrow> a \<in> set xs \<and> ?ok a"
      using p by (auto simp: s)
    have 2: "Extracted a True \<in> set (new_events w w') \<longleftrightarrow> a \<in> set xs \<and> ?ok a"
      using p by (auto simp: s)
    have 3: "Extracted a False \<in> set (new_events w w') \<longleftrightarrow> a \<in> set xs \<and> \<not> ?ok a"
      using p by (auto simp: s)
    have 4: "a \<in> set xs \<and> ?ok a \<Longrightarrow> \<exists>results. r = Returns results \<and> map_of results a = Some True"
      using ran(1,4) by simp
    show ?thesis
      using 4 by (simp only: 1 2 3) blast
  qed
qed

theorem delete_only_after_success_witness:
  "new_events xworld0 (snd (extract_all ''data'' ''data/extracted'' 1 True xworld0))
     = [Extracted ''data/a.tar.bz2'' True, Remove ''data/a.tar.bz2'',
        Extracted ''data/b.tar.bz2'' False]
   \<and> \<not> remove_ok xworld0 ''data/a.tar.bz2''
   \<and> (\<exists>results. fst (extract_all ''data'' ''data/extracted'' 1 True xworld0) = Returns results
         \<and> map_of results ''data/a.tar.bz2'' = Some True)"
proof -
  let ?r = "extract_all ''data'' ''data/extracted'' 1 True xworld0"
  have e: "new_events xworld0 (snd ?r)
     = [Extracted ''data/a.tar.bz2'' True, Remove ''data/a.tar.bz2'',
        Extracted ''data/b.tar.bz2'' False]"
    by code_simp
  have n: "\<not> remove_ok xworld0 ''data/a.tar.bz2''"
    by (simp add: xworld0_def)
  have "?r = (fst ?r, snd ?r)" by simp
  from delete_only_after_success[OF this, of "''data/a.tar.bz2''"] e n
  show ?thesis by simp
qed

text \<open>
  C10.  If the input directory does not exist, or none of its children ends with
  \<open>.tar.bz2\<close>, \<open>extract_all\<close> returns the empty mapping without touching anything, for
  every worker count and delete option; the summary counts no archive and no failure;
  and the batch run of \<open>main\<close> returns normally, that is with exit status 0.
\<close>

theorem extract_all_nothing_to_do:
  assumes "listing w d = None
           \<or> (\<exists>cs. listing w d = Some cs \<and> filter (suffix ''.tar.bz2'') cs = [])"
  shows "extract_all d odir workers del w = (Returns [], w)
       \<and> print_summary [] = (0, 0, 0)
       \<and> (\<not> given (arg_file a) \<and> input_dir_of cfg a = d
            \<longrightarrow> xmain cfg a w = (Returns (), w) \<and> exit_code (fst (xmain cfg a w)) = 0)"
proof -
  from assms have "find_archives w d = []"
    by (auto simp: find_archives_def)
  then have e: "\<And>odir workers del. extract_all d odir workers del w = (Returns [], w)"
    by (simp add: extract_all_def)
  then show ?thesis
    by (auto simp: xmain_def print_summary_def all_values_def Let_def)
qed

theorem extract_all_nothing_to_do_witness:
  "extract_all ''nowhere'' ''out'' 4 True xworld0 = (Returns [], xworld0)
   \<and> xmain cfg0 (xargs_batch ''nowhere'' 4 True) xworld0 = (Returns (), xworld0)
   \<and> extract_all ''empty'' ''out'' 0 True xworld0 = (Returns [], xworld0)
   \<and> exit_code (fst (xmain cfg0 (xargs_batch ''empty'' 0 True) xworld0)) = 0"
proof -
  have n: "listing xworld0 ''nowhere'' = None
           \<or> (\<exists>cs. listing xworld0 ''nowhere'' = Some cs \<and> filter (suffix ''.tar.bz2'') cs = [])"
    by (simp add: xworld0_def)
  have s: "filter (suffix ''.tar.bz2'') [''empty/notes.txt''] = []"
    by code_simp
  have m: "listing xworld0 ''empty'' = None
           \<or> (\<exists>cs. listing xworld0 ''empty'' = Some cs \<and> filter (suffix ''.tar.bz2'') cs = [])"
    using s by (simp add: xworld0_def)
  have g: "\<And>d n. \<not> given (arg_file (xargs_batch d n True))"
      "input_dir_of cfg0 (xargs_batch ''nowhere'' 4 True) = ''nowhere''"
      "input_dir_of cfg0 (xargs_batch ''empty'' 0 True) = ''empty''"
    by (simp_all add: xargs_batch_def input_dir_of_def)
  show ?thesis
    using extract_all_nothing_to_do[OF n, of "''out''" 4 True "xargs_batch ''nowhere'' 4 True" cfg0]
      extract_all_nothing_to_do[OF m, of "''out''" 0 True "xargs_batch ''empty'' 0 True" cfg0]
      g
    by simp
qed

section \<open>Lemmas: the download batch\<close>







section \<open>Theorems: the download batch\<close>





end
